theory Spec2Isabelle
  imports Complex_Main "HOL-Library.Multiset"
begin

section \<open>JavaScript built-ins used by the collection view controller\<close>

text \<open>
  A JavaScript string is modelled as the list of its code units, restricted to the
  code units below 256; \<open>null\<close>/\<open>undefined\<close> is \<open>None\<close>. A string is truthy
  when it is present and not empty, a number when it is present and not zero.
\<close>

fun truthy_str :: "string option \<Rightarrow> bool" where
  "truthy_str None = False"
| "truthy_str (Some s) = (s \<noteq> [])"

fun truthy_id :: "int option \<Rightarrow> bool" where
  "truthy_id None = False"
| "truthy_id (Some i) = (i \<noteq> 0)"

text \<open>The regular expression \<^verbatim>\<open>/^[0-9]/\<close>, as \<^verbatim>\<open>test\<close> applies it.\<close>

definition is_digit :: "char \<Rightarrow> bool" where
  "is_digit c = (c \<in> set ''0123456789'')"

fun starts_with_digit :: "string \<Rightarrow> bool" where
  "starts_with_digit [] = False"
| "starts_with_digit (c # cs) = is_digit c"

text \<open>
  \<^verbatim>\<open>String.prototype.toUpperCase\<close>. The result is given as code units, because two of
  them lie above 255: the letters a to z and the accented letters 0xE0 to 0xFE
  (the division sign 0xF7 apart) move down by 32, the sharp s 0xDF becomes "SS", the
  micro sign 0xB5 becomes U+039C and y with diaeresis 0xFF becomes U+0178; every other
  code unit is kept.
\<close>

definition codeUnits :: "string \<Rightarrow> nat list" where
  "codeUnits s = map of_char s"

definition upper_unit :: "nat \<Rightarrow> nat list" where
  "upper_unit n =
     (if 97 \<le> n \<and> n \<le> 122 then [n - 32]
      else if n = 223 then [83, 83]
      else if 224 \<le> n \<and> n \<le> 254 \<and> n \<noteq> 247 then [n - 32]
      else if n = 181 then [924]
      else if n = 255 then [376]
      else [n])"

definition toUpperCase :: "string \<Rightarrow> nat list" where
  "toUpperCase s = concat (map upper_unit (codeUnits s))"

definition startsWith :: "nat list \<Rightarrow> nat list \<Rightarrow> bool" where
  "startsWith s p = (take (length p) s = p)"

text \<open>
  \<^verbatim>\<open>String.prototype.trim\<close>: white space and line terminators are removed at both
  ends (tab, line feed, vertical tab, form feed, carriage return, space, no-break space).
\<close>

definition is_space :: "char \<Rightarrow> bool" where
  "is_space c = (c \<in> {CHR 0x09, CHR 0x0A, CHR 0x0B, CHR 0x0C, CHR 0x0D, CHR 0x20, CHR 0xA0})"

definition trim :: "string \<Rightarrow> string" where
  "trim s = rev (dropWhile is_space (rev (dropWhile is_space s)))"

text \<open>
  \<^verbatim>\<open>String.prototype.split\<close> with a one-character separator: the empty string splits
  into one empty piece, and a trailing separator leaves an empty last piece.
\<close>

fun split :: "char \<Rightarrow> string \<Rightarrow> string list" where
  "split sep [] = [[]]"
| "split sep (c # cs) =
     (if c = sep then [] # split sep cs
      else (case split sep cs of
              [] \<Rightarrow> [[c]]
            | p # ps \<Rightarrow> (c # p) # ps))"

text \<open>
  \<^verbatim>\<open>Array.prototype.sort\<close> with a comparator. The sort is stable, so for a consistent
  comparator its result is the one a stable insertion sort gives: an element goes before
  the first later element it does not compare greater than.
\<close>

fun sort_insert :: "('a \<Rightarrow> 'a \<Rightarrow> int) \<Rightarrow> 'a \<Rightarrow> 'a list \<Rightarrow> 'a list" where
  "sort_insert cmp x [] = [x]"
| "sort_insert cmp x (y # ys) =
     (if cmp x y \<le> 0 then x # y # ys else y # sort_insert cmp x ys)"

fun array_sort :: "('a \<Rightarrow> 'a \<Rightarrow> int) \<Rightarrow> 'a list \<Rightarrow> 'a list" where
  "array_sort cmp [] = []"
| "array_sort cmp (x # xs) = sort_insert cmp x (array_sort cmp xs)"

text \<open>
  \<^verbatim>\<open>Array.prototype.slice(start, end)\<close>: a negative index counts from the end, and both
  indices are clamped to the array.
\<close>

definition slice :: "'a list \<Rightarrow> int \<Rightarrow> int \<Rightarrow> 'a list" where
  "slice xs start end =
     (let n = int (length xs);
          k = (if start < 0 then max (n + start) 0 else min start n);
          e = (if end < 0 then max (n + end) 0 else min end n)
      in take (nat (e - k)) (drop (nat k) xs))"

text \<open>\<^verbatim>\<open>Array.prototype.findIndex\<close>: the first position that satisfies the test, or -1.\<close>

fun findIndex :: "('a \<Rightarrow> bool) \<Rightarrow> 'a list \<Rightarrow> int" where
  "findIndex P [] = - 1"
| "findIndex P (x # xs) =
     (if P x then 0
      else (let i = findIndex P xs in if i < 0 then - 1 else i + 1))"

text \<open>Reading \<^verbatim>\<open>xs[i]\<close>: \<open>undefined\<close> outside the array.\<close>

definition array_get :: "'a list \<Rightarrow> int \<Rightarrow> 'a option" where
  "array_get xs i = (if 0 \<le> i \<and> i < int (length xs) then Some (xs ! nat i) else None)"

text \<open>A number in a template string (status codes and counts are natural numbers).\<close>

fun string_of_nat :: "nat \<Rightarrow> string" where
  "string_of_nat n =
     (if n < 10 then [''0123456789'' ! n]
      else string_of_nat (n div 10) @ [''0123456789'' ! (n mod 10)])"

section \<open>State of the controller (the module-level variables of app.v2.js)\<close>

text \<open>
  A game as the server sends it; the controller reads its id, title and genre
  (a comma-separated tag string that may be missing).
\<close>

record game =
  gid :: int
  title :: string
  genre :: "string option"

type_synonym stats = "(string \<times> nat) list"

type_synonym game_status = "string list"

datatype toast_type = Info | Success | Warning | Error

text \<open>What the \<^verbatim>\<open>#game-list\<close> container shows.\<close>

datatype game_list_view =
    Blank
  | Select_A_Console
  | No_Games_Found
  | Cards "game list" int int

text \<open>The requests the controller sends; the log of them is part of the state.\<close>

datatype request =
    Get_Console_Games "int option"
  | Get_Console_Stats "int option"
  | Get_Console_Games_By_Status int string
  | Get_Games_By_Status string
  | Get_Game int
  | Get_Game_Status int
  | Post_Game_View int
  | Post_Console_Game "int option" string
  | Post_Console_Games_Bulk "int option" "string list"
  | Delete_Game int
  | Get_Stats
  | Get_Recently_Added

text \<open>
  The outcome of one \<^verbatim>\<open>fetch\<close>: a 2xx response with its parsed body, a non-2xx
  response with its status and error payload, or an error thrown by \<^verbatim>\<open>fetch\<close> or by
  parsing the body, with its message.
\<close>

datatype error_payload = Not_Json | Json_Detail "string option"

datatype 'a response =
    Ok 'a
  | Http_Error nat error_payload
  | Network_Error string

record add_result =
  added :: nat
  skipped :: nat

record state =
  gamesByConsole :: "int option \<rightharpoonup> game list"
  currentConsoleId :: "int option"
  currentGameDetail :: "game option"
  activeFilter :: "string option"
  activeGenreFilter :: "string option"
  activeStatusFilter :: "string option"
  statusFilteredGames :: "game list"
  currentPage :: int
  isLoading :: bool
  archiveStats :: stats
  consoleStats :: "stats option"
  currentGameIndex :: int
  currentGamesList :: "game list"
  currentGameStatus :: "game_status option"
  recentlyViewedHidden :: bool
  game_list :: game_list_view
  toasts :: "(toast_type \<times> string) list"
  requests :: "request list"

definition PAGE_SIZE :: int where
  "PAGE_SIZE = 20"

section \<open>Toasts and the request wrapper\<close>

definition showToast :: "string \<Rightarrow> toast_type \<Rightarrow> state \<Rightarrow> state" where
  "showToast message type s = s\<lparr>toasts := toasts s @ [(type, message)]\<rparr>"

text \<open>
  \<^verbatim>\<open>apiCall\<close>: the request is sent; a failure is shown as an error toast and thrown
  again (\<open>Inl\<close> carries the message of the thrown error); the loading flag is cleared
  in every case.
\<close>

fun error_message :: "nat \<Rightarrow> error_payload \<Rightarrow> string" where
  "error_message code Not_Json = ''Unknown error''"
| "error_message code (Json_Detail d) =
     (case d of
        None \<Rightarrow> ''HTTP '' @ string_of_nat code
      | Some m \<Rightarrow> if m = [] then ''HTTP '' @ string_of_nat code else m)"

fun apiCall :: "request \<Rightarrow> 'a response \<Rightarrow> state \<Rightarrow> (string + 'a) \<times> state" where
  "apiCall endpoint (Ok v) s =
     (Inr v, s\<lparr>requests := requests s @ [endpoint], isLoading := False\<rparr>)"
| "apiCall endpoint (Http_Error code payload) s =
     (Inl (error_message code payload),
      (showToast (''Error: '' @ error_message code payload) Error
         (s\<lparr>requests := requests s @ [endpoint]\<rparr>))\<lparr>isLoading := False\<rparr>)"
| "apiCall endpoint (Network_Error m) s =
     (Inl m,
      (showToast (''Error: '' @ m) Error
         (s\<lparr>requests := requests s @ [endpoint]\<rparr>))\<lparr>isLoading := False\<rparr>)"

section \<open>Filtering, sorting and pagination\<close>

text \<open>\<^verbatim>\<open>gamesByConsole[currentConsoleId] || []\<close>\<close>

definition cachedGames :: "state \<Rightarrow> game list" where
  "cachedGames s =
     (case gamesByConsole s (currentConsoleId s) of None \<Rightarrow> [] | Some gs \<Rightarrow> gs)"

text \<open>
  The comparator of the sort, \<^verbatim>\<open>(a, b) => a.title.localeCompare(b.title)\<close>. The collation
  \<open>localeCompare\<close> belongs to the host, so it is a parameter of every function that sorts.
\<close>

definition byTitle :: "(string \<Rightarrow> string \<Rightarrow> int) \<Rightarrow> game \<Rightarrow> game \<Rightarrow> int" where
  "byTitle localeCompare a b = localeCompare (title a) (title b)"

text \<open>The two filter callbacks of \<^verbatim>\<open>renderGamesForCurrentConsole\<close> and \<^verbatim>\<open>openGameDetail\<close>.\<close>

definition alphaFilter :: "string \<Rightarrow> game list \<Rightarrow> game list" where
  "alphaFilter letter games =
     (if letter = ''0-9'' then filter (\<lambda>g. starts_with_digit (title g)) games
      else filter (\<lambda>g. startsWith (toUpperCase (title g)) (codeUnits letter)) games)"

definition genreMatches :: "string \<Rightarrow> game \<Rightarrow> bool" where
  "genreMatches active g =
     (case genre g of
        None \<Rightarrow> False
      | Some s \<Rightarrow>
          if s = [] then False
          else list_ex (\<lambda>piece. trim piece = active) (split CHR '','' s))"

definition genreFilter :: "string \<Rightarrow> game list \<Rightarrow> game list" where
  "genreFilter active games = filter (genreMatches active) games"

text \<open>
  The first branch of \<^verbatim>\<open>renderGamesForCurrentConsole\<close>: the list the filters start from,
  or \<open>None\<close> where the function shows "Select a console" and returns.
\<close>

definition baseGames :: "(string \<Rightarrow> string \<Rightarrow> int) \<Rightarrow> state \<Rightarrow> game list option" where
  "baseGames localeCompare s =
     (if truthy_str (activeStatusFilter s) \<and> 0 < length (statusFilteredGames s)
      then Some (statusFilteredGames s)
      else if \<not> truthy_id (currentConsoleId s) then None
      else Some (array_sort (byTitle localeCompare) (cachedGames s)))"

text \<open>The list after the alphabetical and the genre filter, which is then paginated.\<close>

definition filteredGames :: "state \<Rightarrow> game list \<Rightarrow> game list" where
  "filteredGames s games =
     (let games1 =
            (if \<not> truthy_str (activeStatusFilter s) \<and> truthy_str (activeFilter s)
             then alphaFilter (the (activeFilter s)) games else games)
      in if \<not> truthy_str (activeStatusFilter s) \<and> truthy_str (activeGenreFilter s)
         then genreFilter (the (activeGenreFilter s)) games1 else games1)"

definition workingList :: "(string \<Rightarrow> string \<Rightarrow> int) \<Rightarrow> state \<Rightarrow> game list option" where
  "workingList localeCompare s = map_option (filteredGames s) (baseGames localeCompare s)"

text \<open>\<^verbatim>\<open>Math.ceil(games.length / PAGE_SIZE)\<close>\<close>

definition totalPages :: "nat \<Rightarrow> int" where
  "totalPages n = \<lceil>real n / real_of_int PAGE_SIZE\<rceil>"

definition renderGamesForCurrentConsole ::
  "(string \<Rightarrow> string \<Rightarrow> int) \<Rightarrow> state \<Rightarrow> state" where
  "renderGamesForCurrentConsole localeCompare s =
     (case workingList localeCompare s of
        None \<Rightarrow> s\<lparr>game_list := Select_A_Console\<rparr>
      | Some games \<Rightarrow>
          (let total = totalPages (length games);
               page = (if currentPage s > total then 1 else currentPage s);
               start = (page - 1) * PAGE_SIZE;
               end = start + PAGE_SIZE;
               pageGames = slice games start end
           in if pageGames = [] then s\<lparr>currentPage := page, game_list := No_Games_Found\<rparr>
              else s\<lparr>currentPage := page, game_list := Cards pageGames page total\<rparr>))"

section \<open>Filter selection\<close>

text \<open>
  The three handlers set the filter variables and render the list again. The
  alphabetical index, the genre list and the status list are drawn from the filter
  variables alone and are not part of the state.
\<close>

definition applyFilter :: "(string \<Rightarrow> string \<Rightarrow> int) \<Rightarrow> string \<Rightarrow> state \<Rightarrow> state" where
  "applyFilter localeCompare letter s =
     renderGamesForCurrentConsole localeCompare
       (s\<lparr>activeFilter := Some letter, currentPage := 1\<rparr>)"

definition applyGenreFilter :: "(string \<Rightarrow> string \<Rightarrow> int) \<Rightarrow> string \<Rightarrow> state \<Rightarrow> state" where
  "applyGenreFilter localeCompare g s =
     (let s1 = (if activeGenreFilter s = Some g then s\<lparr>activeGenreFilter := None\<rparr>
                else s\<lparr>activeGenreFilter := Some g\<rparr>)
      in renderGamesForCurrentConsole localeCompare
           (s1\<lparr>activeFilter := None, activeStatusFilter := None, currentPage := 1\<rparr>))"

text \<open>
  \<^verbatim>\<open>applyStatusFilter\<close> fetches the games with the status when it switches the filter
  on; \<open>resp\<close> is the answer of the server to that request.
\<close>

definition applyStatusFilter ::
  "(string \<Rightarrow> string \<Rightarrow> int) \<Rightarrow> string \<Rightarrow> game list response \<Rightarrow> state \<Rightarrow> state" where
  "applyStatusFilter localeCompare status resp s =
     (let s3 =
        (if activeStatusFilter s = Some status
         then s\<lparr>activeStatusFilter := None, statusFilteredGames := [],
                recentlyViewedHidden := False\<rparr>
         else
           (let s1 = s\<lparr>activeStatusFilter := Some status\<rparr>;
                (r, s2) =
                  (if truthy_id (currentConsoleId s1)
                   then apiCall (Get_Console_Games_By_Status (the (currentConsoleId s1)) status)
                          resp s1
                   else apiCall (Get_Games_By_Status status) resp s1)
            in s2\<lparr>statusFilteredGames := (case r of Inl e \<Rightarrow> [] | Inr games \<Rightarrow> games),
                   recentlyViewedHidden := True\<rparr>))
      in renderGamesForCurrentConsole localeCompare
           (s3\<lparr>activeFilter := None, activeGenreFilter := None, currentPage := 1\<rparr>))"

section \<open>Loading and changing the games of a console\<close>

text \<open>
  \<^verbatim>\<open>loadGamesForConsole\<close>: \<open>rg\<close> and \<open>rs\<close> are the answers to the two requests it
  sends. The console list and the status counts it also redraws are not part of the state.
\<close>

definition loadGamesForConsole ::
  "(string \<Rightarrow> string \<Rightarrow> int) \<Rightarrow> int option \<Rightarrow> game list response \<Rightarrow> stats response \<Rightarrow>
     state \<Rightarrow> state" where
  "loadGamesForConsole localeCompare consoleId rg rs s =
     (let (r1, s1) = apiCall (Get_Console_Games consoleId) rg s;
          s2 = s1\<lparr>gamesByConsole :=
                    (gamesByConsole s1)(consoleId \<mapsto> (case r1 of Inl e \<Rightarrow> [] | Inr games \<Rightarrow> games))\<rparr>;
          (r2, s3) = apiCall (Get_Console_Stats consoleId) rs s2;
          s4 = s3\<lparr>consoleStats := (case r2 of Inl e \<Rightarrow> None | Inr st \<Rightarrow> Some st)\<rparr>
      in renderGamesForCurrentConsole localeCompare s4)"

definition loadLastAdded :: "game list response \<Rightarrow> state \<Rightarrow> state" where
  "loadLastAdded r s = snd (apiCall Get_Recently_Added r s)"

definition loadStats :: "stats response \<Rightarrow> state \<Rightarrow> state" where
  "loadStats r s =
     (case apiCall Get_Stats r s of
        (Inl e, s1) \<Rightarrow> s1
      | (Inr st, s1) \<Rightarrow> s1\<lparr>archiveStats := st\<rparr>)"

text \<open>
  \<^verbatim>\<open>confirmAddGame\<close>: \<open>singleTab\<close> says which tab of the dialog is active, \<open>titleInput\<close>
  and \<open>listInput\<close> are the contents of its two fields, \<open>rp\<close> is the answer to the
  POST and \<open>rg\<close>, \<open>rs\<close>, \<open>rl\<close> are the answers to the refresh requests that follow it.
  The pasted list is cut at the line feeds into trimmed, non-empty titles.
\<close>

definition parseTitles :: "string \<Rightarrow> string list" where
  "parseTitles listText =
     filter (\<lambda>line. 0 < length line) (map trim (split CHR 0x0A listText))"

definition confirmAddGame ::
  "(string \<Rightarrow> string \<Rightarrow> int) \<Rightarrow> bool \<Rightarrow> string \<Rightarrow> string \<Rightarrow> add_result response \<Rightarrow>
     game list response \<Rightarrow> stats response \<Rightarrow> game list response \<Rightarrow> state \<Rightarrow> state" where
  "confirmAddGame localeCompare singleTab titleInput listInput rp rg rs rl s =
     (if \<not> truthy_id (currentConsoleId s)
      then showToast ''Please select a console first'' Warning s
      else if singleTab then
        (let t = trim titleInput
         in if t = [] then showToast ''Please enter a game title'' Warning s
            else
              (case apiCall (Post_Console_Game (currentConsoleId s) t) rp s of
                 (Inl e, s1) \<Rightarrow> showToast ''Failed to add game'' Error s1
               | (Inr result, s1) \<Rightarrow>
                   (let s2 = (if added result > 0 then showToast (''Added: '' @ t) Success s1
                              else showToast (''Already exists: '' @ t) Info s1);
                        s3 = loadGamesForConsole localeCompare (currentConsoleId s2) rg rs s2
                    in loadLastAdded rl s3)))
      else
        (let listText = trim listInput
         in if listText = [] then showToast ''Please paste a list of games'' Warning s
            else
              (let games = parseTitles listText
               in if length games = 0 then showToast ''No valid game titles found'' Warning s
                  else
                    (case apiCall (Post_Console_Games_Bulk (currentConsoleId s) games) rp s of
                       (Inl e, s1) \<Rightarrow> showToast ''Failed to add games'' Error s1
                     | (Inr result, s1) \<Rightarrow>
                         (let s2 = showToast
                                     (''Added '' @ string_of_nat (added result) @ '' games'' @
                                        (if skipped result > 0
                                         then '' ('' @ string_of_nat (skipped result) @
                                              '' already existed)''
                                         else [])) Success s1;
                              s3 = loadGamesForConsole localeCompare (currentConsoleId s2) rg rs s2
                          in loadLastAdded rl s3)))))"

text \<open>
  \<^verbatim>\<open>deleteGame\<close>: \<open>confirmed\<close> is the answer of the user to the confirmation dialog,
  \<open>rd\<close> the answer to the DELETE, and \<open>rg\<close>, \<open>rs\<close>, \<open>ra\<close> the answers to the refresh
  requests that follow it.
\<close>

definition deleteGame ::
  "(string \<Rightarrow> string \<Rightarrow> int) \<Rightarrow> int \<Rightarrow> bool \<Rightarrow> unit response \<Rightarrow> game list response \<Rightarrow>
     stats response \<Rightarrow> stats response \<Rightarrow> state \<Rightarrow> state" where
  "deleteGame localeCompare gameId confirmed rd rg rs ra s =
     (if \<not> confirmed then s
      else
        (case apiCall (Delete_Game gameId) rd s of
           (Inl e, s1) \<Rightarrow> s1
         | (Inr u, s1) \<Rightarrow>
             (let s2 = showToast ''Game deleted successfully'' Success s1;
                  s3 = loadGamesForConsole localeCompare (currentConsoleId s2) rg rs s2
              in loadStats ra s3)))"

section \<open>The game detail and its navigation\<close>

definition loadGameStatus :: "int \<Rightarrow> game_status response \<Rightarrow> state \<Rightarrow> game_status option \<times> state" where
  "loadGameStatus gameId r s =
     (case apiCall (Get_Game_Status gameId) r s of
        (Inl e, s1) \<Rightarrow> (None, s1)
      | (Inr st, s1) \<Rightarrow> (Some st, s1))"

definition recordGameView :: "int \<Rightarrow> unit response \<Rightarrow> state \<Rightarrow> state" where
  "recordGameView gameId r s = snd (apiCall (Post_Game_View gameId) r s)"

text \<open>
  \<^verbatim>\<open>openGameDetail\<close>: \<open>rgame\<close>, \<open>rview\<close> and \<open>rstatus\<close> are the answers to its three
  requests. The modal that \<^verbatim>\<open>renderGameDetail\<close> draws, the screenshots of the
  lightbox and the paging of the description are not part of the state.
\<close>

definition openGameDetail ::
  "(string \<Rightarrow> string \<Rightarrow> int) \<Rightarrow> int \<Rightarrow> game response \<Rightarrow> unit response \<Rightarrow> game_status response \<Rightarrow>
     state \<Rightarrow> state" where
  "openGameDetail localeCompare gameId rgame rview rstatus s =
     (case apiCall (Get_Game gameId) rgame s of
        (Inl e, s1) \<Rightarrow> s1
      | (Inr g, s1) \<Rightarrow>
          (let s2 = s1\<lparr>currentGameDetail := Some g\<rparr>;
               s3 = recordGameView gameId rview s2;
               (st, s4) = loadGameStatus gameId rstatus s3;
               s5 = s4\<lparr>currentGameStatus := st\<rparr>;
               list0 = array_sort (byTitle localeCompare) (cachedGames s5);
               list1 = (if truthy_str (activeFilter s5) \<or> truthy_str (activeGenreFilter s5)
                        then
                          (let l1 = (if truthy_str (activeFilter s5)
                                     then alphaFilter (the (activeFilter s5)) list0 else list0)
                           in if truthy_str (activeGenreFilter s5)
                              then genreFilter (the (activeGenreFilter s5)) l1 else l1)
                        else list0)
           in s5\<lparr>currentGamesList := list1,
                  currentGameIndex := findIndex (\<lambda>x. gid x = gameId) list1\<rparr>))"

text \<open>
  The two navigation handlers. Reading the list outside its bounds gives \<open>undefined\<close>,
  whose \<open>id\<close> cannot be read: the error is caught with those of the request.
\<close>

definition loadNeighbour :: "string \<Rightarrow> game response \<Rightarrow> game_status response \<Rightarrow> state \<Rightarrow> state" where
  "loadNeighbour failure rgame rstatus s =
     (case array_get (currentGamesList s) (currentGameIndex s) of
        None \<Rightarrow> showToast failure Error s
      | Some target \<Rightarrow>
          (case apiCall (Get_Game (gid target)) rgame s of
             (Inl e, s1) \<Rightarrow> showToast failure Error s1
           | (Inr g, s1) \<Rightarrow>
               (let s2 = s1\<lparr>currentGameDetail := Some g\<rparr>;
                    (st, s3) = loadGameStatus (gid target) rstatus s2
                in s3\<lparr>currentGameStatus := st\<rparr>)))"

definition navigateToPrevGame :: "game response \<Rightarrow> game_status response \<Rightarrow> state \<Rightarrow> state" where
  "navigateToPrevGame rgame rstatus s =
     (if currentGameIndex s \<le> 0 \<or> length (currentGamesList s) = 0 then s
      else loadNeighbour ''Failed to load previous game'' rgame rstatus
             (s\<lparr>currentGameIndex := currentGameIndex s - 1\<rparr>))"

definition navigateToNextGame :: "game response \<Rightarrow> game_status response \<Rightarrow> state \<Rightarrow> state" where
  "navigateToNextGame rgame rstatus s =
     (if currentGameIndex s \<ge> int (length (currentGamesList s)) - 1
         \<or> length (currentGamesList s) = 0 then s
      else loadNeighbour ''Failed to load next game'' rgame rstatus
             (s\<lparr>currentGameIndex := currentGameIndex s + 1\<rparr>))"

section \<open>Initial state, success of a response, error notices\<close>

text \<open>The values the module-level variables are declared with.\<close>

definition initialState :: state where
  "initialState =
     \<lparr>gamesByConsole = Map.empty,
      currentConsoleId = None,
      currentGameDetail = None,
      activeFilter = None,
      activeGenreFilter = None,
      activeStatusFilter = None,
      statusFilteredGames = [],
      currentPage = 1,
      isLoading = False,
      archiveStats =
        [(''total_consoles'', 0), (''total_games'', 0), (''completed_count'', 0),
         (''favorites_count'', 0), (''playing_count'', 0), (''plan_to_play_count'', 0),
         (''dropped_count'', 0), (''on_hold_count'', 0)],
      consoleStats = None,
      currentGameIndex = - 1,
      currentGamesList = [],
      currentGameStatus = None,
      recentlyViewedHidden = False,
      game_list = Blank,
      toasts = [],
      requests = []\<rparr>"

fun succeeded :: "'a response \<Rightarrow> bool" where
  "succeeded (Ok v) = True"
| "succeeded (Http_Error code payload) = False"
| "succeeded (Network_Error m) = False"

text \<open>The user-visible error notices: the toasts of type \<open>error\<close>.\<close>

definition errorNotices :: "state \<Rightarrow> (toast_type \<times> string) list" where
  "errorNotices s = filter (\<lambda>t. fst t = Error) (toasts s)"

section \<open>Comparators\<close>

text \<open>
  A comparator is consistent when it orders the strings totally: of two strings one is
  not greater than the other, and "not greater" is transitive. \<open>localeCompare\<close> is
  consistent in every locale.
\<close>

definition consistent_comparator :: "(string \<Rightarrow> string \<Rightarrow> int) \<Rightarrow> bool" where
  "consistent_comparator cmp =
     ((\<forall>a b. 0 < cmp a b \<longrightarrow> cmp b a \<le> 0) \<and>
      (\<forall>a b c. cmp a b \<le> 0 \<longrightarrow> cmp b c \<le> 0 \<longrightarrow> cmp a c \<le> 0))"

text \<open>
  One consistent comparator for the examples: the order of the code units after
  upper-casing, which ignores the case of the letters.
\<close>

fun compare_codes :: "nat list \<Rightarrow> nat list \<Rightarrow> int" where
  "compare_codes [] [] = 0"
| "compare_codes [] (y # ys) = - 1"
| "compare_codes (x # xs) [] = 1"
| "compare_codes (x # xs) (y # ys) =
     (if x < y then - 1 else if y < x then 1 else compare_codes xs ys)"

definition caseInsensitiveCompare :: "string \<Rightarrow> string \<Rightarrow> int" where
  "caseInsensitiveCompare a b =
     compare_codes (toUpperCase a) (toUpperCase b)"

section \<open>The properties in the words of the specification\<close>

text \<open>
  Sorted by title under the comparator, games with equally ranked titles in the order
  of their ids.
\<close>

definition sortedByTitleThenId :: "(string \<Rightarrow> string \<Rightarrow> int) \<Rightarrow> game list \<Rightarrow> bool" where
  "sortedByTitleThenId cmp games =
     sorted_wrt
       (\<lambda>a b. cmp (title a) (title b) < 0 \<or> (cmp (title a) (title b) = 0 \<and> gid a \<le> gid b))
       games"

text \<open>Sorted by title under the comparator, with no word on equally ranked titles.\<close>

definition sortedByTitle :: "(string \<Rightarrow> string \<Rightarrow> int) \<Rightarrow> game list \<Rightarrow> bool" where
  "sortedByTitle cmp games = sorted_wrt (\<lambda>a b. cmp (title a) (title b) \<le> 0) games"

text \<open>
  The tags of a game: its genre string split at the commas, each piece trimmed; a game
  without a genre has no tag.
\<close>

definition genreTags :: "game \<Rightarrow> string list" where
  "genreTags g =
     (case genre g of
        None \<Rightarrow> []
      | Some s \<Rightarrow> map trim (split CHR '','' s))"

text \<open>The items of a list at the positions \<open>i\<close> with \<open>from \<le> i < to\<close>.\<close>

definition itemsAt :: "'a list \<Rightarrow> nat \<Rightarrow> nat \<Rightarrow> 'a list" where
  "itemsAt xs from to = map (\<lambda>i. xs ! i) [from ..< to]"

section \<open>Sorting: permutation, order and stability\<close>

lemma mset_sort_insert: "mset (sort_insert cmp x ys) = add_mset x (mset ys)"
  by (induction ys) auto

lemma mset_array_sort: "mset (array_sort cmp xs) = mset xs"
  by (induction xs) (auto simp: mset_sort_insert)

lemma set_sort_insert: "set (sort_insert cmp x ys) = insert x (set ys)"
  by (induction ys) auto

lemma sorted_sort_insert:
  assumes total: "\<And>a b. 0 < cmp a b \<Longrightarrow> cmp b a \<le> 0"
    and trans: "\<And>a b c. cmp a b \<le> 0 \<Longrightarrow> cmp b c \<le> 0 \<Longrightarrow> cmp a c \<le> 0"
  shows "sorted_wrt (\<lambda>a b. cmp a b \<le> 0) ys \<Longrightarrow> sorted_wrt (\<lambda>a b. cmp a b \<le> 0) (sort_insert cmp x ys)"
proof (induction ys)
  case Nil
  then show ?case by simp
next
  case (Cons y ys)
  show ?case
  proof (cases "cmp x y \<le> 0")
    case True
    with Cons.prems show ?thesis by (auto intro: trans)
  next
    case False
    then have "cmp y x \<le> 0" using total [of x y] by simp
    with False Cons show ?thesis by (auto simp: set_sort_insert)
  qed
qed

lemma sorted_array_sort:
  assumes total: "\<And>a b. 0 < cmp a b \<Longrightarrow> cmp b a \<le> 0"
    and trans: "\<And>a b c. cmp a b \<le> 0 \<Longrightarrow> cmp b c \<le> 0 \<Longrightarrow> cmp a c \<le> 0"
  shows "sorted_wrt (\<lambda>a b. cmp a b \<le> 0) (array_sort cmp xs)"
  by (induction xs) (auto intro: sorted_sort_insert total trans)

lemma stable_sort_insert:
  assumes refl: "\<And>a b. key a = key b \<Longrightarrow> cmp a b \<le> 0"
  shows "filter (\<lambda>g. key g = t) (sort_insert cmp x ys) = filter (\<lambda>g. key g = t) (x # ys)"
proof (induction ys)
  case Nil
  then show ?case by simp
next
  case (Cons y ys)
  show ?case
  proof (cases "cmp x y \<le> 0")
    case True
    then show ?thesis by simp
  next
    case False
    then have "key x \<noteq> key y" using refl [of x y] by auto
    with False Cons show ?thesis by auto
  qed
qed

lemma stable_array_sort:
  assumes refl: "\<And>a b. key a = key b \<Longrightarrow> cmp a b \<le> 0"
  shows "filter (\<lambda>g. key g = t) (array_sort cmp xs) = filter (\<lambda>g. key g = t) xs"
  by (induction xs) (simp_all add: stable_sort_insert [of key cmp] refl)

lemma consistent_refl: "consistent_comparator cmp \<Longrightarrow> cmp a a \<le> 0"
  unfolding consistent_comparator_def by (metis not_le)

section \<open>Rendering is repeatable\<close>

lemma workingList_page [simp]:
  "workingList c (s\<lparr>currentPage := p\<rparr>) = workingList c s"
  "workingList c (s\<lparr>game_list := v\<rparr>) = workingList c s"
  by (simp_all add: workingList_def baseGames_def filteredGames_def cachedGames_def Let_def)

lemma render_idem:
  "renderGamesForCurrentConsole c (renderGamesForCurrentConsole c s) = renderGamesForCurrentConsole c s"
  by (cases "workingList c s") (simp_all add: renderGamesForCurrentConsole_def Let_def)

text \<open>
  Claim C1 (as amended). When the list is drawn from the cached list of the selected
  console, \<^verbatim>\<open>renderGamesForCurrentConsole\<close> starts from a permutation of the cached list
  that is sorted by title under \<open>localeCompare\<close>; games with the same title keep the
  order they have in the cache (the sort is stable, and there is no tie-break by id).
  Rendering a second time on the unchanged state gives the same state and the same page.
\<close>

theorem cached_list_sorted_by_title:
  assumes "consistent_comparator localeCompare"
    and "\<not> (truthy_str (activeStatusFilter s) \<and> statusFilteredGames s \<noteq> [])"
    and "truthy_id (currentConsoleId s)"
  shows "(case baseGames localeCompare s of
            None \<Rightarrow> False
          | Some base \<Rightarrow>
              sortedByTitle localeCompare base \<and>
              mset base = mset (cachedGames s) \<and>
              (\<forall>t. filter (\<lambda>g. title g = t) base = filter (\<lambda>g. title g = t) (cachedGames s))) \<and>
         renderGamesForCurrentConsole localeCompare (renderGamesForCurrentConsole localeCompare s)
           = renderGamesForCurrentConsole localeCompare s"
proof -
  let ?cmp = "byTitle localeCompare"
  have total: "\<And>a b. 0 < ?cmp a b \<Longrightarrow> ?cmp b a \<le> 0"
    using assms(1) by (simp add: consistent_comparator_def byTitle_def)
  have trans: "\<And>a b c. ?cmp a b \<le> 0 \<Longrightarrow> ?cmp b c \<le> 0 \<Longrightarrow> ?cmp a c \<le> 0"
    using assms(1) unfolding consistent_comparator_def byTitle_def by blast
  have refl: "\<And>a b. title a = title b \<Longrightarrow> ?cmp a b \<le> 0"
    using consistent_refl [OF assms(1)] by (simp add: byTitle_def)
  have base: "baseGames localeCompare s = Some (array_sort ?cmp (cachedGames s))"
    using assms(2,3) by (auto simp: baseGames_def)
  have "sorted_wrt (\<lambda>a b. ?cmp a b \<le> 0) (array_sort ?cmp (cachedGames s))"
    by (rule sorted_array_sort) (erule total, erule trans)
  then have 1: "sortedByTitle localeCompare (array_sort ?cmp (cachedGames s))"
    by (simp add: sortedByTitle_def byTitle_def)
  have 2: "\<forall>t. filter (\<lambda>g. title g = t) (array_sort ?cmp (cachedGames s))
             = filter (\<lambda>g. title g = t) (cachedGames s)"
    using stable_array_sort [of title ?cmp] refl by blast
  show ?thesis
    using base 1 2 by (simp add: mset_array_sort render_idem)
qed

section \<open>The example comparator is consistent\<close>

lemma compare_codes_flip: "compare_codes b a = - compare_codes a b"
  by (induction a b rule: compare_codes.induct) auto

lemma compare_codes_trans:
  "compare_codes a b \<le> 0 \<Longrightarrow> compare_codes b c \<le> 0 \<Longrightarrow> compare_codes a c \<le> 0"
proof (induction a arbitrary: b c)
  case Nil
  then show ?case by (cases c) auto
next
  case (Cons x xs)
  from Cons.prems obtain y ys where b: "b = y # ys" by (cases b) auto
  from Cons.prems b obtain z zs where c: "c = z # zs" by (cases c) (auto split: if_splits)
  from Cons.prems Cons.IH [of ys zs] show ?case
    unfolding b c by (auto split: if_splits)
qed

lemma caseInsensitiveCompare_consistent: "consistent_comparator caseInsensitiveCompare"
  unfolding consistent_comparator_def caseInsensitiveCompare_def
proof (intro conjI allI impI)
  fix a b
  assume "0 < compare_codes (toUpperCase a) (toUpperCase b)"
  then show "compare_codes (toUpperCase b) (toUpperCase a) \<le> 0"
    using compare_codes_flip [of "toUpperCase b" "toUpperCase a"]
    by simp
next
  fix a b c
  assume "compare_codes (toUpperCase a) (toUpperCase b) \<le> 0"
    and "compare_codes (toUpperCase b) (toUpperCase c) \<le> 0"
  then show "compare_codes (toUpperCase a) (toUpperCase c) \<le> 0"
    by (rule compare_codes_trans)
qed

lemmas eval_strings =
  caseInsensitiveCompare_def toUpperCase_def upper_unit_def codeUnits_def byTitle_def
  trim_def is_space_def is_digit_def startsWith_def

theorem cached_list_sorted_by_title_witness:
  "(case baseGames caseInsensitiveCompare
           (initialState\<lparr>currentConsoleId := Some 1,
              gamesByConsole :=
                [Some 1 \<mapsto> [\<lparr>gid = 3, title = ''zelda'', genre = None\<rparr>,
                             \<lparr>gid = 2, title = ''asteroids'', genre = None\<rparr>,
                             \<lparr>gid = 1, title = ''Asteroids'', genre = None\<rparr>]]\<rparr>) of
      None \<Rightarrow> False
    | Some base \<Rightarrow>
        base = [\<lparr>gid = 2, title = ''asteroids'', genre = None\<rparr>,
                \<lparr>gid = 1, title = ''Asteroids'', genre = None\<rparr>,
                \<lparr>gid = 3, title = ''zelda'', genre = None\<rparr>] \<and>
        sortedByTitle caseInsensitiveCompare base)"
proof -
  let ?s = "initialState\<lparr>currentConsoleId := Some 1,
              gamesByConsole :=
                [Some 1 \<mapsto> [\<lparr>gid = 3, title = ''zelda'', genre = None\<rparr>,
                             \<lparr>gid = 2, title = ''asteroids'', genre = None\<rparr>,
                             \<lparr>gid = 1, title = ''Asteroids'', genre = None\<rparr>]]\<rparr>"
  have h2: "\<not> (truthy_str (activeStatusFilter ?s) \<and> statusFilteredGames ?s \<noteq> [])"
    by (simp add: initialState_def)
  have h3: "truthy_id (currentConsoleId ?s)"
    by simp
  have e: "baseGames caseInsensitiveCompare ?s
             = Some [\<lparr>gid = 2, title = ''asteroids'', genre = None\<rparr>,
                     \<lparr>gid = 1, title = ''Asteroids'', genre = None\<rparr>,
                     \<lparr>gid = 3, title = ''zelda'', genre = None\<rparr>]"
    by (simp add: baseGames_def initialState_def cachedGames_def eval_strings)
  show ?thesis
    using cached_list_sorted_by_title [OF caseInsensitiveCompare_consistent h2 h3]
    by (simp add: e)
qed

text \<open>
  Claim C1 as stated fails: two games with the same title stay in the order of the cache,
  not in the order of their ids, and a status-filtered list is taken in the order the
  server sent it.
\<close>

theorem title_id_order_counterexample:
  "baseGames caseInsensitiveCompare
     (initialState\<lparr>currentConsoleId := Some 1,
        gamesByConsole :=
          [Some 1 \<mapsto> [\<lparr>gid = 2, title = ''Tetris'', genre = None\<rparr>,
                       \<lparr>gid = 1, title = ''Tetris'', genre = None\<rparr>]]\<rparr>)
     = Some [\<lparr>gid = 2, title = ''Tetris'', genre = None\<rparr>,
             \<lparr>gid = 1, title = ''Tetris'', genre = None\<rparr>] \<and>
   \<not> sortedByTitleThenId caseInsensitiveCompare
       [\<lparr>gid = 2, title = ''Tetris'', genre = None\<rparr>,
        \<lparr>gid = 1, title = ''Tetris'', genre = None\<rparr>] \<and>
   baseGames caseInsensitiveCompare
     (initialState\<lparr>activeStatusFilter := Some ''favorite'',
        statusFilteredGames :=
          [\<lparr>gid = 1, title = ''Zelda'', genre = None\<rparr>,
           \<lparr>gid = 2, title = ''Asteroids'', genre = None\<rparr>]\<rparr>)
     = Some [\<lparr>gid = 1, title = ''Zelda'', genre = None\<rparr>,
             \<lparr>gid = 2, title = ''Asteroids'', genre = None\<rparr>] \<and>
   \<not> sortedByTitleThenId caseInsensitiveCompare
       [\<lparr>gid = 1, title = ''Zelda'', genre = None\<rparr>,
        \<lparr>gid = 2, title = ''Asteroids'', genre = None\<rparr>]"
  by (simp add: baseGames_def initialState_def cachedGames_def sortedByTitleThenId_def
      eval_strings)

section \<open>What rendering and the request wrapper leave alone\<close>

lemma render_keeps [simp]:
  "gamesByConsole (renderGamesForCurrentConsole c s) = gamesByConsole s"
  "currentConsoleId (renderGamesForCurrentConsole c s) = currentConsoleId s"
  "activeFilter (renderGamesForCurrentConsole c s) = activeFilter s"
  "activeGenreFilter (renderGamesForCurrentConsole c s) = activeGenreFilter s"
  "activeStatusFilter (renderGamesForCurrentConsole c s) = activeStatusFilter s"
  "statusFilteredGames (renderGamesForCurrentConsole c s) = statusFilteredGames s"
  "toasts (renderGamesForCurrentConsole c s) = toasts s"
  "requests (renderGamesForCurrentConsole c s) = requests s"
  "currentGamesList (renderGamesForCurrentConsole c s) = currentGamesList s"
  "currentGameIndex (renderGamesForCurrentConsole c s) = currentGameIndex s"
  by (simp_all add: renderGamesForCurrentConsole_def Let_def split: option.split)

lemma render_first_page:
  "currentPage s = 1 \<Longrightarrow> currentPage (renderGamesForCurrentConsole c s) = 1"
  by (simp add: renderGamesForCurrentConsole_def Let_def split: option.split)

lemma apiCall_keeps [simp]:
  "gamesByConsole (snd (apiCall e r s)) = gamesByConsole s"
  "currentConsoleId (snd (apiCall e r s)) = currentConsoleId s"
  "activeFilter (snd (apiCall e r s)) = activeFilter s"
  "activeGenreFilter (snd (apiCall e r s)) = activeGenreFilter s"
  "activeStatusFilter (snd (apiCall e r s)) = activeStatusFilter s"
  "statusFilteredGames (snd (apiCall e r s)) = statusFilteredGames s"
  "currentPage (snd (apiCall e r s)) = currentPage s"
  "game_list (snd (apiCall e r s)) = game_list s"
  "currentGamesList (snd (apiCall e r s)) = currentGamesList s"
  "currentGameIndex (snd (apiCall e r s)) = currentGameIndex s"
  by (cases r; simp add: showToast_def)+

lemma apiCall_failed:
  assumes "\<not> succeeded r"
  shows "isl (fst (apiCall e r s))"
    and "toasts (snd (apiCall e r s)) = toasts s @ [(Error, ''Error: '' @ projl (fst (apiCall e r s)))]"
  using assms by (cases r; simp add: showToast_def)+

lemma apiCall_succeeded:
  "apiCall e (Ok v) s = (Inr v, s\<lparr>requests := requests s @ [e], isLoading := False\<rparr>)"
  by simp

lemma totalPages_div: "totalPages n = (int n + 19) div 20"
proof -
  have "real n / real_of_int PAGE_SIZE = of_int (int n) / of_int 20"
    by (simp add: PAGE_SIZE_def)
  then have "totalPages n = - (- int n div 20)"
    unfolding totalPages_def by (simp only: ceiling_divide_eq_div)
  then show ?thesis by linarith
qed

section \<open>Selecting a filter\<close>

lemma applyGenreFilter_filters:
  "activeFilter (applyGenreFilter c g s) = None"
  "activeStatusFilter (applyGenreFilter c g s) = None"
  "activeGenreFilter (applyGenreFilter c g s) = (if activeGenreFilter s = Some g then None else Some g)"
  by (simp_all add: applyGenreFilter_def Let_def)

lemma applyStatusFilter_filters:
  "activeFilter (applyStatusFilter c st r s) = None \<and>
   activeGenreFilter (applyStatusFilter c st r s) = None \<and>
   activeStatusFilter (applyStatusFilter c st r s) = (if activeStatusFilter s = Some st then None else Some st)"
proof (cases "activeStatusFilter s = Some st")
  case True
  then show ?thesis by (simp add: applyStatusFilter_def)
next
  case False
  then show ?thesis
    by (cases r; cases "truthy_id (currentConsoleId s)")
       (simp_all add: applyStatusFilter_def showToast_def)
qed

text \<open>
  Claim C2 (as amended). Selecting a genre clears the alphabetical and the status filter,
  and selecting a status clears the alphabetical and the genre filter; selecting a
  letter sets the alphabetical filter and leaves the genre filter as it is, so that
  a letter and a genre can be active together.
\<close>

theorem filter_selection_clears:
  "activeFilter (applyGenreFilter c g s) = None \<and>
   activeStatusFilter (applyGenreFilter c g s) = None \<and>
   activeFilter (applyStatusFilter c st r s) = None \<and>
   activeGenreFilter (applyStatusFilter c st r s) = None \<and>
   activeFilter (applyFilter c letter s) = Some letter \<and>
   activeGenreFilter (applyFilter c letter s) = activeGenreFilter s"
  using applyStatusFilter_filters [of c st r s]
  by (simp add: applyGenreFilter_filters applyFilter_def)

theorem filter_selection_clears_witness:
  "activeFilter (applyGenreFilter caseInsensitiveCompare ''RPG''
      (initialState\<lparr>activeFilter := Some ''A'', activeStatusFilter := Some ''favorite''\<rparr>)) = None \<and>
   activeStatusFilter (applyGenreFilter caseInsensitiveCompare ''RPG''
      (initialState\<lparr>activeFilter := Some ''A'', activeStatusFilter := Some ''favorite''\<rparr>)) = None"
  using filter_selection_clears
    [of caseInsensitiveCompare "''RPG''"
        "initialState\<lparr>activeFilter := Some ''A'', activeStatusFilter := Some ''favorite''\<rparr>"]
  by simp

text \<open>
  Claim C2 as stated fails: with the genre filter "RPG" active, selecting the letter
  "A" leaves the genre filter active beside the alphabetical one.
\<close>

theorem alphabetical_filter_keeps_genre_counterexample:
  "activeGenreFilter (initialState\<lparr>activeGenreFilter := Some ''RPG''\<rparr>) = Some ''RPG'' \<and>
   activeFilter (applyFilter caseInsensitiveCompare ''A''
      (initialState\<lparr>activeGenreFilter := Some ''RPG''\<rparr>)) = Some ''A'' \<and>
   activeGenreFilter (applyFilter caseInsensitiveCompare ''A''
      (initialState\<lparr>activeGenreFilter := Some ''RPG''\<rparr>)) = Some ''RPG''"
  by (simp add: applyFilter_def)

text \<open>
  Claim C6 (as amended). Selecting the same letter twice gives the state, and so the
  displayed list, that selecting it once gives. Selecting the same genre or the same
  status a second time switches that filter off again: after two selections the filter
  is active only if it was active before the first.
\<close>

theorem filter_selection_twice:
  "applyFilter c letter (applyFilter c letter s) = applyFilter c letter s \<and>
   activeGenreFilter (applyGenreFilter c g (applyGenreFilter c g s))
     = (if activeGenreFilter s = Some g then Some g else None) \<and>
   activeStatusFilter (applyStatusFilter c st r2 (applyStatusFilter c st r1 s))
     = (if activeStatusFilter s = Some st then Some st else None)"
proof -
  let ?s0 = "s\<lparr>activeFilter := Some letter, currentPage := 1\<rparr>"
  let ?r = "renderGamesForCurrentConsole c ?s0"
  have a: "Some letter = activeFilter ?r" and b: "1 = currentPage ?r"
    by (simp_all add: render_first_page)
  have "?r\<lparr>activeFilter := Some letter, currentPage := 1\<rparr>
          = ?r\<lparr>activeFilter := activeFilter ?r, currentPage := currentPage ?r\<rparr>"
    by (subst a, subst b) (rule refl)
  then have "?r\<lparr>activeFilter := Some letter, currentPage := 1\<rparr> = ?r"
    by simp
  then have 1: "applyFilter c letter (applyFilter c letter s) = applyFilter c letter s"
    by (simp add: applyFilter_def render_idem)
  have 2: "activeGenreFilter (applyGenreFilter c g (applyGenreFilter c g s))
     = (if activeGenreFilter s = Some g then Some g else None)"
    by (simp add: applyGenreFilter_filters)
  have 3: "activeStatusFilter (applyStatusFilter c st r2 (applyStatusFilter c st r1 s))
     = (if activeStatusFilter s = Some st then Some st else None)"
    using applyStatusFilter_filters [of c st r1 s]
      applyStatusFilter_filters [of c st r2 "applyStatusFilter c st r1 s"]
    by simp
  from 1 2 3 show ?thesis by simp
qed

theorem filter_selection_twice_witness:
  "applyFilter caseInsensitiveCompare ''A''
     (applyFilter caseInsensitiveCompare ''A'' (initialState\<lparr>currentConsoleId := Some 1\<rparr>))
     = applyFilter caseInsensitiveCompare ''A'' (initialState\<lparr>currentConsoleId := Some 1\<rparr>) \<and>
   activeGenreFilter
     (applyGenreFilter caseInsensitiveCompare ''RPG''
        (applyGenreFilter caseInsensitiveCompare ''RPG'' initialState)) = None \<and>
   activeStatusFilter
     (applyStatusFilter caseInsensitiveCompare ''favorite'' (Ok [])
        (applyStatusFilter caseInsensitiveCompare ''favorite'' (Ok []) initialState)) = None"
  using filter_selection_twice
    [of caseInsensitiveCompare "''A''" "initialState\<lparr>currentConsoleId := Some 1\<rparr>"]
    filter_selection_twice [of caseInsensitiveCompare _ initialState "''RPG''" "''favorite''" "Ok []" "Ok []"]
  by (simp add: initialState_def)

text \<open>
  Claim C6 as stated fails for the genre filter: the first selection of "RPG" shows the
  one game with that tag, the second selection switches the filter off and shows both games.
\<close>

theorem genre_filter_twice_counterexample:
  "activeGenreFilter
     (applyGenreFilter caseInsensitiveCompare ''RPG''
        (initialState\<lparr>currentConsoleId := Some 1,
           gamesByConsole :=
             [Some 1 \<mapsto> [\<lparr>gid = 1, title = ''Doom'', genre = Some ''Action''\<rparr>,
                          \<lparr>gid = 2, title = ''Ultima'', genre = Some ''RPG''\<rparr>]]\<rparr>))
     = Some ''RPG'' \<and>
   game_list
     (applyGenreFilter caseInsensitiveCompare ''RPG''
        (initialState\<lparr>currentConsoleId := Some 1,
           gamesByConsole :=
             [Some 1 \<mapsto> [\<lparr>gid = 1, title = ''Doom'', genre = Some ''Action''\<rparr>,
                          \<lparr>gid = 2, title = ''Ultima'', genre = Some ''RPG''\<rparr>]]\<rparr>))
     = Cards [\<lparr>gid = 2, title = ''Ultima'', genre = Some ''RPG''\<rparr>] 1 1 \<and>
   activeGenreFilter
     (applyGenreFilter caseInsensitiveCompare ''RPG''
        (applyGenreFilter caseInsensitiveCompare ''RPG''
           (initialState\<lparr>currentConsoleId := Some 1,
              gamesByConsole :=
                [Some 1 \<mapsto> [\<lparr>gid = 1, title = ''Doom'', genre = Some ''Action''\<rparr>,
                             \<lparr>gid = 2, title = ''Ultima'', genre = Some ''RPG''\<rparr>]]\<rparr>)))
     = None \<and>
   game_list
     (applyGenreFilter caseInsensitiveCompare ''RPG''
        (applyGenreFilter caseInsensitiveCompare ''RPG''
           (initialState\<lparr>currentConsoleId := Some 1,
              gamesByConsole :=
                [Some 1 \<mapsto> [\<lparr>gid = 1, title = ''Doom'', genre = Some ''Action''\<rparr>,
                             \<lparr>gid = 2, title = ''Ultima'', genre = Some ''RPG''\<rparr>]]\<rparr>)))
     = Cards [\<lparr>gid = 1, title = ''Doom'', genre = Some ''Action''\<rparr>,
              \<lparr>gid = 2, title = ''Ultima'', genre = Some ''RPG''\<rparr>] 1 1"
  by (simp add: applyGenreFilter_def renderGamesForCurrentConsole_def workingList_def
      baseGames_def filteredGames_def cachedGames_def genreFilter_def genreMatches_def
      initialState_def totalPages_div slice_def PAGE_SIZE_def Let_def eval_strings)

section \<open>Refreshing the cache\<close>

text \<open>
  Claim C4 (as amended). When the request for the games of a console fails,
  \<^verbatim>\<open>loadGamesForConsole\<close> replaces the cached list of that console by the empty list;
  the cached lists of all other consoles stay as they are.
\<close>

theorem failed_refresh_empties_cache:
  assumes "\<not> succeeded rg"
  shows "gamesByConsole (loadGamesForConsole c consoleId rg rs s)
           = (gamesByConsole s)(consoleId \<mapsto> [])"
  using assms
  by (cases rg; cases rs) (simp_all add: loadGamesForConsole_def showToast_def)

theorem failed_refresh_empties_cache_witness:
  "\<not> succeeded (Network_Error ''Failed to fetch'' :: game list response) \<and>
   gamesByConsole
     (loadGamesForConsole caseInsensitiveCompare (Some 1) (Network_Error ''Failed to fetch'')
        (Ok [])
        (initialState\<lparr>gamesByConsole :=
           [Some 1 \<mapsto> [\<lparr>gid = 1, title = ''Doom'', genre = None\<rparr>],
            Some 2 \<mapsto> [\<lparr>gid = 2, title = ''Ultima'', genre = None\<rparr>]]\<rparr>))
     = [Some 1 \<mapsto> [], Some 2 \<mapsto> [\<lparr>gid = 2, title = ''Ultima'', genre = None\<rparr>]]"
proof -
  have h: "\<not> succeeded (Network_Error ''Failed to fetch'' :: game list response)"
    by simp
  show ?thesis
    using h failed_refresh_empties_cache [OF h, of caseInsensitiveCompare "Some 1" "Ok []"
        "initialState\<lparr>gamesByConsole :=
           [Some 1 \<mapsto> [\<lparr>gid = 1, title = ''Doom'', genre = None\<rparr>],
            Some 2 \<mapsto> [\<lparr>gid = 2, title = ''Ultima'', genre = None\<rparr>]]\<rparr>"]
    by (simp add: fun_upd_twist)
qed

text \<open>
  Claim C4 as stated fails: console 1 has one cached game, the refresh is answered
  with status 500, and afterwards the cached list of console 1 is empty.
\<close>

theorem failed_refresh_counterexample:
  "gamesByConsole
     (initialState\<lparr>gamesByConsole :=
        [Some 1 \<mapsto> [\<lparr>gid = 1, title = ''Doom'', genre = None\<rparr>]]\<rparr>) (Some 1)
     = Some [\<lparr>gid = 1, title = ''Doom'', genre = None\<rparr>] \<and>
   gamesByConsole
     (loadGamesForConsole caseInsensitiveCompare (Some 1) (Http_Error 500 Not_Json) (Ok [])
        (initialState\<lparr>gamesByConsole :=
           [Some 1 \<mapsto> [\<lparr>gid = 1, title = ''Doom'', genre = None\<rparr>]]\<rparr>)) (Some 1)
     = Some []"
  by (simp add: loadGamesForConsole_def showToast_def)

section \<open>Failed mutations\<close>

lemma deleteGame_failed:
  assumes "\<not> succeeded rd"
  shows "game_list (deleteGame c gameId True rd rg rs ra s) = game_list s"
    and "gamesByConsole (deleteGame c gameId True rd rg rs ra s) = gamesByConsole s"
    and "length (errorNotices (deleteGame c gameId True rd rg rs ra s))
           = length (errorNotices s) + 1"
  using assms
  by (cases rd; simp add: deleteGame_def showToast_def errorNotices_def)+

lemma addGame_failed:
  assumes "\<not> succeeded rp" and "truthy_id (currentConsoleId s)" and "trim titleInput \<noteq> []"
  shows "game_list (confirmAddGame c True titleInput listInput rp rg rs rl s) = game_list s"
    and "gamesByConsole (confirmAddGame c True titleInput listInput rp rg rs rl s)
           = gamesByConsole s"
    and "length (errorNotices (confirmAddGame c True titleInput listInput rp rg rs rl s))
           = length (errorNotices s) + 2"
  using assms
  by (cases rp; simp add: confirmAddGame_def showToast_def errorNotices_def)+

lemma addGames_failed:
  assumes "\<not> succeeded rp" and "truthy_id (currentConsoleId s)"
    and "trim listInput \<noteq> []" and "parseTitles (trim listInput) \<noteq> []"
  shows "game_list (confirmAddGame c False titleInput listInput rp rg rs rl s) = game_list s"
    and "gamesByConsole (confirmAddGame c False titleInput listInput rp rg rs rl s)
           = gamesByConsole s"
    and "length (errorNotices (confirmAddGame c False titleInput listInput rp rg rs rl s))
           = length (errorNotices s) + 2"
  using assms
  by (cases rp; simp add: confirmAddGame_def showToast_def errorNotices_def)+

text \<open>
  Claim C5 (as amended). When the request of a mutation fails, the rendered list and
  the cache stay as they were. Deleting a game then shows exactly one error notice, the
  one of \<^verbatim>\<open>apiCall\<close>; adding one game or a list of games shows exactly two, the one of
  \<^verbatim>\<open>apiCall\<close> and the one of \<^verbatim>\<open>confirmAddGame\<close>.
\<close>

theorem failed_mutation_notices:
  assumes "\<not> succeeded rd" and "\<not> succeeded rp"
    and "truthy_id (currentConsoleId s)"
    and "trim titleInput \<noteq> []"
    and "trim listInput \<noteq> []" and "parseTitles (trim listInput) \<noteq> []"
  shows "game_list (deleteGame c gameId True rd rg rs ra s) = game_list s \<and>
         gamesByConsole (deleteGame c gameId True rd rg rs ra s) = gamesByConsole s \<and>
         length (errorNotices (deleteGame c gameId True rd rg rs ra s))
           = length (errorNotices s) + 1 \<and>
         game_list (confirmAddGame c single titleInput listInput rp rg rs rl s) = game_list s \<and>
         gamesByConsole (confirmAddGame c single titleInput listInput rp rg rs rl s)
           = gamesByConsole s \<and>
         length (errorNotices (confirmAddGame c single titleInput listInput rp rg rs rl s))
           = length (errorNotices s) + 2"
proof (cases single)
  case True
  with deleteGame_failed [OF assms(1)] addGame_failed [OF assms(2,3,4)] show ?thesis
    by simp
next
  case False
  with deleteGame_failed [OF assms(1)] addGames_failed [OF assms(2,3,5,6)] show ?thesis
    by simp
qed

theorem failed_mutation_notices_witness:
  "errorNotices
     (deleteGame caseInsensitiveCompare 7 True (Http_Error 500 Not_Json) (Ok []) (Ok []) (Ok [])
        (initialState\<lparr>currentConsoleId := Some 1\<rparr>))
     = [(Error, ''Error: Unknown error'')] \<and>
   length (errorNotices
     (confirmAddGame caseInsensitiveCompare False ''Doom'' ''Doom''
        (Http_Error 500 Not_Json) (Ok []) (Ok []) (Ok [])
        (initialState\<lparr>currentConsoleId := Some 1\<rparr>))) = 2"
proof -
  have 1: "\<not> succeeded (Http_Error 500 Not_Json :: unit response)"
    and 2: "\<not> succeeded (Http_Error 500 Not_Json :: add_result response)"
    and 3: "truthy_id (currentConsoleId (initialState\<lparr>currentConsoleId := Some 1\<rparr>))"
    and 4: "trim ''Doom'' \<noteq> []"
    and 5: "parseTitles (trim ''Doom'') \<noteq> []"
    by (simp_all add: parseTitles_def eval_strings)
  have d: "errorNotices
     (deleteGame caseInsensitiveCompare 7 True (Http_Error 500 Not_Json) (Ok []) (Ok []) (Ok [])
        (initialState\<lparr>currentConsoleId := Some 1\<rparr>))
     = [(Error, ''Error: Unknown error'')]"
    by (simp add: deleteGame_def showToast_def errorNotices_def initialState_def)
  have e: "errorNotices (initialState\<lparr>currentConsoleId := Some 1\<rparr>) = []"
    by (simp add: errorNotices_def initialState_def)
  show ?thesis
    using failed_mutation_notices [OF 1 2 3 4 4 5, of caseInsensitiveCompare 7
        "Ok []" "Ok []" "Ok []" False "Ok []"] d e
    by simp
qed

text \<open>
  Claim C5 as stated fails for adding a game: the POST is answered with status 500,
  and two error notices are shown.
\<close>

theorem failed_add_two_notices_counterexample:
  "errorNotices
     (confirmAddGame caseInsensitiveCompare True ''Doom'' []
        (Http_Error 500 (Json_Detail (Some ''Internal Server Error''))) (Ok []) (Ok []) (Ok [])
        (initialState\<lparr>currentConsoleId := Some 1\<rparr>))
     = [(Error, ''Error: Internal Server Error''), (Error, ''Failed to add game'')]"
  by (simp add: confirmAddGame_def showToast_def errorNotices_def initialState_def eval_strings)

section \<open>Detail navigation\<close>

lemma loadGameStatus_keeps [simp]:
  "currentGamesList (snd (loadGameStatus i r s)) = currentGamesList s"
  "currentGameIndex (snd (loadGameStatus i r s)) = currentGameIndex s"
  by (cases r; simp add: loadGameStatus_def showToast_def)+

lemma loadNeighbour_keeps [simp]:
  "currentGamesList (loadNeighbour f rgame rstatus s) = currentGamesList s \<and>
   currentGameIndex (loadNeighbour f rgame rstatus s) = currentGameIndex s"
proof (cases "array_get (currentGamesList s) (currentGameIndex s)")
  case None
  then show ?thesis by (simp add: loadNeighbour_def showToast_def)
next
  case (Some target)
  then show ?thesis
    by (cases rgame) (simp_all add: loadNeighbour_def showToast_def split_beta Let_def)
qed

text \<open>
  Claim C9. At index 0, and with an empty navigation list, \<^verbatim>\<open>navigateToPrevGame\<close>
  returns the state as it is: the index is unchanged and no request is sent. At the last
  index \<^verbatim>\<open>navigateToNextGame\<close> returns the state as it is. When the index is a position
  of the list, it is a position of the list after either step.
\<close>

theorem navigation_stops_at_ends:
  "(currentGameIndex s = 0 \<or> currentGamesList s = []
      \<longrightarrow> navigateToPrevGame rgame rstatus s = s) \<and>
   (currentGameIndex s = int (length (currentGamesList s)) - 1
      \<longrightarrow> navigateToNextGame rgame rstatus s = s) \<and>
   (0 \<le> currentGameIndex s \<and> currentGameIndex s < int (length (currentGamesList s))
      \<longrightarrow> 0 \<le> currentGameIndex (navigateToPrevGame rgame rstatus s) \<and>
          currentGameIndex (navigateToPrevGame rgame rstatus s)
            < int (length (currentGamesList (navigateToPrevGame rgame rstatus s))) \<and>
          0 \<le> currentGameIndex (navigateToNextGame rgame rstatus s) \<and>
          currentGameIndex (navigateToNextGame rgame rstatus s)
            < int (length (currentGamesList (navigateToNextGame rgame rstatus s))))"
  by (auto simp: navigateToPrevGame_def navigateToNextGame_def)

theorem navigation_stops_at_ends_witness:
  "navigateToPrevGame (Ok \<lparr>gid = 1, title = ''Doom'', genre = None\<rparr>) (Ok [])
     (initialState\<lparr>currentGameIndex := 0,
        currentGamesList := [\<lparr>gid = 1, title = ''Doom'', genre = None\<rparr>,
                             \<lparr>gid = 2, title = ''Ultima'', genre = None\<rparr>]\<rparr>)
     = initialState\<lparr>currentGameIndex := 0,
        currentGamesList := [\<lparr>gid = 1, title = ''Doom'', genre = None\<rparr>,
                             \<lparr>gid = 2, title = ''Ultima'', genre = None\<rparr>]\<rparr> \<and>
   navigateToNextGame (Ok \<lparr>gid = 2, title = ''Ultima'', genre = None\<rparr>) (Ok [])
     (initialState\<lparr>currentGameIndex := 1,
        currentGamesList := [\<lparr>gid = 1, title = ''Doom'', genre = None\<rparr>,
                             \<lparr>gid = 2, title = ''Ultima'', genre = None\<rparr>]\<rparr>)
     = initialState\<lparr>currentGameIndex := 1,
        currentGamesList := [\<lparr>gid = 1, title = ''Doom'', genre = None\<rparr>,
                             \<lparr>gid = 2, title = ''Ultima'', genre = None\<rparr>]\<rparr> \<and>
   currentGameIndex
     (navigateToNextGame (Ok \<lparr>gid = 2, title = ''Ultima'', genre = None\<rparr>) (Ok [])
        (initialState\<lparr>currentGameIndex := 0,
           currentGamesList := [\<lparr>gid = 1, title = ''Doom'', genre = None\<rparr>,
                                \<lparr>gid = 2, title = ''Ultima'', genre = None\<rparr>]\<rparr>)) = 1"
proof -
  let ?l = "[\<lparr>gid = 1, title = ''Doom'', genre = None\<rparr>,
             \<lparr>gid = 2, title = ''Ultima'', genre = None\<rparr>]"
  have n: "currentGameIndex
     (navigateToNextGame (Ok \<lparr>gid = 2, title = ''Ultima'', genre = None\<rparr>) (Ok [])
        (initialState\<lparr>currentGameIndex := 0, currentGamesList := ?l\<rparr>)) = 1"
    by (simp add: navigateToNextGame_def)
  show ?thesis
    using navigation_stops_at_ends
        [of "initialState\<lparr>currentGameIndex := 0, currentGamesList := ?l\<rparr>"
            "Ok \<lparr>gid = 1, title = ''Doom'', genre = None\<rparr>" "Ok []"]
      navigation_stops_at_ends
        [of "initialState\<lparr>currentGameIndex := 1, currentGamesList := ?l\<rparr>"
            "Ok \<lparr>gid = 2, title = ''Ultima'', genre = None\<rparr>" "Ok []"] n
    by simp
qed

section \<open>The status filter\<close>

text \<open>
  While a status filter is active and the fetched status subset is not empty, the working
  list is exactly that subset, in the order the server sent it, and it does not depend
  on the alphabetical and the genre filter.
\<close>

lemma status_filter_nonempty_subset:
  assumes "truthy_str (activeStatusFilter s)" and "statusFilteredGames s \<noteq> []"
  shows "workingList c s = Some (statusFilteredGames s)"
    and "workingList c (s\<lparr>activeFilter := f, activeGenreFilter := g\<rparr>) = workingList c s"
  using assms
  by (simp_all add: workingList_def baseGames_def filteredGames_def)

text \<open>
  Claim C3 fails on the code for the empty subset. Console 1 is selected and holds one
  cached game; the status "favorite" is selected and the server answers with no game.
  The status filter is then active and the status subset is empty, so the claim requires
  an empty working list ("No games found"). \<^verbatim>\<open>renderGamesForCurrentConsole\<close> takes
  its status branch only when the subset is not empty, falls through to the cached list
  of the console and shows the cached game. On the homepage, with no console selected,
  the same selection shows "Select a console".
\<close>

theorem empty_status_subset_shows_cached_list:
  "activeStatusFilter
     (applyStatusFilter caseInsensitiveCompare ''favorite'' (Ok [])
        (initialState\<lparr>currentConsoleId := Some 1,
           gamesByConsole := [Some 1 \<mapsto> [\<lparr>gid = 1, title = ''Doom'', genre = None\<rparr>]]\<rparr>))
     = Some ''favorite'' \<and>
   statusFilteredGames
     (applyStatusFilter caseInsensitiveCompare ''favorite'' (Ok [])
        (initialState\<lparr>currentConsoleId := Some 1,
           gamesByConsole := [Some 1 \<mapsto> [\<lparr>gid = 1, title = ''Doom'', genre = None\<rparr>]]\<rparr>))
     = [] \<and>
   workingList caseInsensitiveCompare
     (applyStatusFilter caseInsensitiveCompare ''favorite'' (Ok [])
        (initialState\<lparr>currentConsoleId := Some 1,
           gamesByConsole := [Some 1 \<mapsto> [\<lparr>gid = 1, title = ''Doom'', genre = None\<rparr>]]\<rparr>))
     = Some [\<lparr>gid = 1, title = ''Doom'', genre = None\<rparr>] \<and>
   game_list
     (applyStatusFilter caseInsensitiveCompare ''favorite'' (Ok [])
        (initialState\<lparr>currentConsoleId := Some 1,
           gamesByConsole := [Some 1 \<mapsto> [\<lparr>gid = 1, title = ''Doom'', genre = None\<rparr>]]\<rparr>))
     = Cards [\<lparr>gid = 1, title = ''Doom'', genre = None\<rparr>] 1 1 \<and>
   game_list
     (applyStatusFilter caseInsensitiveCompare ''favorite'' (Ok []) initialState)
     = Select_A_Console"
  by (simp add: applyStatusFilter_def renderGamesForCurrentConsole_def workingList_def
      baseGames_def filteredGames_def cachedGames_def initialState_def totalPages_div
      slice_def PAGE_SIZE_def Let_def)

section \<open>The genre filter\<close>

text \<open>
  Claim C7. For an active genre filter (a non-empty string) a game passes the genre
  filter exactly when the filter is one of its tags: the pieces of its genre string
  between the commas, trimmed. A game whose genre is missing or empty has no such tag.
  With no status filter active, the working list is made of the games of the
  alphabetically filtered list that have the tag.
\<close>

theorem genre_filter_exact_tag:
  assumes "active \<noteq> []"
  shows "(genreMatches active g \<longleftrightarrow> active \<in> set (genreTags g)) \<and>
         (activeGenreFilter s = Some active \<and> \<not> truthy_str (activeStatusFilter s) \<longrightarrow>
            filteredGames s games =
              filter (\<lambda>x. active \<in> set (genreTags x))
                (if truthy_str (activeFilter s) then alphaFilter (the (activeFilter s)) games
                 else games))"
proof -
  have m: "genreMatches active x \<longleftrightarrow> active \<in> set (genreTags x)" for x
  proof (cases "genre x")
    case None
    then show ?thesis by (simp add: genreMatches_def genreTags_def)
  next
    case (Some str)
    show ?thesis
    proof (cases "str = []")
      case True
      with Some assms show ?thesis
        by (auto simp: genreMatches_def genreTags_def trim_def)
    next
      case False
      with Some show ?thesis
        by (auto simp: genreMatches_def genreTags_def list_ex_iff)
    qed
  qed
  have "filter (genreMatches active) xs = filter (\<lambda>x. active \<in> set (genreTags x)) xs" for xs
    using m by (simp cong: filter_cong)
  with m [of g] assms show ?thesis
    by (simp add: filteredGames_def genreFilter_def)
qed

theorem genre_filter_exact_tag_witness:
  "genreMatches ''RPG'' \<lparr>gid = 1, title = ''Ultima'', genre = Some ''Action, RPG ''\<rparr> \<and>
   \<not> genreMatches ''RP'' \<lparr>gid = 1, title = ''Ultima'', genre = Some ''Action, RPG ''\<rparr> \<and>
   \<not> genreMatches ''RPG'' \<lparr>gid = 2, title = ''Doom'', genre = Some []\<rparr> \<and>
   \<not> genreMatches ''RPG'' \<lparr>gid = 3, title = ''Tetris'', genre = None\<rparr> \<and>
   filteredGames (initialState\<lparr>activeGenreFilter := Some ''RPG''\<rparr>)
     [\<lparr>gid = 1, title = ''Ultima'', genre = Some ''Action, RPG ''\<rparr>,
      \<lparr>gid = 2, title = ''Doom'', genre = Some []\<rparr>,
      \<lparr>gid = 3, title = ''Tetris'', genre = None\<rparr>]
     = [\<lparr>gid = 1, title = ''Ultima'', genre = Some ''Action, RPG ''\<rparr>]"
proof -
  have 1: "''RPG'' \<noteq> []" and 2: "''RP'' \<noteq> []"
    by simp_all
  have t: "genreTags \<lparr>gid = 1, title = ''Ultima'', genre = Some ''Action, RPG ''\<rparr>
             = [''Action'', ''RPG'']"
    "genreTags \<lparr>gid = 2, title = ''Doom'', genre = Some []\<rparr> = [[]]"
    "genreTags \<lparr>gid = 3, title = ''Tetris'', genre = None\<rparr> = []"
    by (simp_all add: genreTags_def eval_strings)
  have f: "activeGenreFilter (initialState\<lparr>activeGenreFilter := Some ''RPG''\<rparr>) = Some ''RPG''"
    "\<not> truthy_str (activeStatusFilter (initialState\<lparr>activeGenreFilter := Some ''RPG''\<rparr>))"
    "\<not> truthy_str (activeFilter (initialState\<lparr>activeGenreFilter := Some ''RPG''\<rparr>))"
    by (simp_all add: initialState_def)
  let ?u = "\<lparr>gid = 1, title = ''Ultima'', genre = Some ''Action, RPG ''\<rparr>"
  let ?d = "\<lparr>gid = 2, title = ''Doom'', genre = Some []\<rparr>"
  let ?t = "\<lparr>gid = 3, title = ''Tetris'', genre = None\<rparr>"
  let ?s = "initialState\<lparr>activeGenreFilter := Some ''RPG''\<rparr>"
  have u: "genreMatches ''RPG'' ?u"
    using genre_filter_exact_tag [OF 1, of ?u] by (simp add: t)
  have u': "\<not> genreMatches ''RP'' ?u"
    using genre_filter_exact_tag [OF 2, of ?u] by (simp add: t)
  have d: "\<not> genreMatches ''RPG'' ?d"
    using genre_filter_exact_tag [OF 1, of ?d] by (simp add: t)
  have n: "\<not> genreMatches ''RPG'' ?t"
    using genre_filter_exact_tag [OF 1, of ?t] by (simp add: t)
  have "filteredGames ?s [?u, ?d, ?t]
          = filter (\<lambda>x. ''RPG'' \<in> set (genreTags x))
              (if truthy_str (activeFilter ?s) then alphaFilter (the (activeFilter ?s)) [?u, ?d, ?t]
               else [?u, ?d, ?t])"
    using genre_filter_exact_tag [OF 1, of ?u ?s "[?u, ?d, ?t]"] f by blast
  then have l: "filteredGames ?s [?u, ?d, ?t] = [?u]"
    by (simp add: t initialState_def)
  from u u' d n l show ?thesis
    by blast
qed

section \<open>Pagination\<close>

lemma itemsAt_take_drop:
  "j \<le> length xs \<Longrightarrow> itemsAt xs i j = take (j - i) (drop i xs)"
  unfolding itemsAt_def by (rule nth_equalityI) simp_all

lemma slice_page:
  assumes "0 \<le> a" and "a \<le> b"
  shows "slice xs a b = itemsAt xs (nat a) (nat (min b (int (length xs))))"
proof (cases "a < int (length xs)")
  case True
  let ?e = "min b (int (length xs))"
  have "nat ?e \<le> length xs"
    by simp
  then have "itemsAt xs (nat a) (nat ?e) = take (nat ?e - nat a) (drop (nat a) xs)"
    by (rule itemsAt_take_drop)
  also have "nat ?e - nat a = nat (?e - a)"
    using assms by simp
  finally show ?thesis
    using assms True by (simp add: slice_def Let_def min_def)
next
  case False
  then have "slice xs a b = []"
    using assms by (auto simp: slice_def Let_def)
  moreover have "itemsAt xs (nat a) (nat (min b (int (length xs)))) = []"
    using False assms by (auto simp: itemsAt_def)
  ultimately show ?thesis by simp
qed

text \<open>
  Claim C8. With \<open>n\<close> games in the filtered list, the number of pages is the ceiling
  of \<open>n / 20\<close>; a current page above that number becomes page 1; and the page \<open>p\<close>
  that is shown is made of the items at the positions from \<open>(p - 1) * 20\<close> up to, and
  not including, the smaller of \<open>p * 20\<close> and \<open>n\<close>. Page numbers start at 1.
\<close>

theorem rendered_page_contents:
  assumes "workingList c s = Some games" and "1 \<le> currentPage s"
  shows
    "(let n = length games;
          total = totalPages n;
          p = (if currentPage s > total then 1 else currentPage s);
          page = itemsAt games (nat ((p - 1) * 20)) (nat (min (p * 20) (int n)))
      in total = \<lceil>real n / 20\<rceil> \<and>
         currentPage (renderGamesForCurrentConsole c s) = p \<and>
         game_list (renderGamesForCurrentConsole c s)
           = (if page = [] then No_Games_Found else Cards page p total) \<and>
         int (length page) = max 0 (min (p * 20) (int n) - (p - 1) * 20))"
proof -
  define total where "total = totalPages (length games)"
  define p where "p = (if currentPage s > total then 1 else currentPage s)"
  define page where
    "page = itemsAt games (nat ((p - 1) * 20)) (nat (min (p * 20) (int (length games))))"
  have p1: "1 \<le> p"
    using assms(2) by (simp add: p_def)
  have sl: "slice games ((p - 1) * PAGE_SIZE) ((p - 1) * PAGE_SIZE + PAGE_SIZE) = page"
    using p1 slice_page [of "(p - 1) * 20" "p * 20" games]
    by (simp add: PAGE_SIZE_def page_def algebra_simps)
  have "renderGamesForCurrentConsole c s =
          (let pageGames = slice games ((p - 1) * PAGE_SIZE) ((p - 1) * PAGE_SIZE + PAGE_SIZE)
           in if pageGames = [] then s\<lparr>currentPage := p, game_list := No_Games_Found\<rparr>
              else s\<lparr>currentPage := p, game_list := Cards pageGames p total\<rparr>)"
    unfolding renderGamesForCurrentConsole_def assms(1) total_def p_def
    by (simp add: Let_def)
  then have r: "renderGamesForCurrentConsole c s =
          (if page = [] then s\<lparr>currentPage := p, game_list := No_Games_Found\<rparr>
           else s\<lparr>currentPage := p, game_list := Cards page p total\<rparr>)"
    unfolding sl by (simp add: Let_def)
  have 1: "total = \<lceil>real (length games) / 20\<rceil>"
    by (simp add: total_def totalPages_def PAGE_SIZE_def)
  have 2: "currentPage (renderGamesForCurrentConsole c s) = p"
    unfolding r by simp
  have 3: "game_list (renderGamesForCurrentConsole c s)
             = (if page = [] then No_Games_Found else Cards page p total)"
    unfolding r by simp
  have 4: "int (length page) = max 0 (min (p * 20) (int (length games)) - (p - 1) * 20)"
    using p1 by (simp add: page_def itemsAt_def)
  show ?thesis
    unfolding Let_def total_def [symmetric] p_def [symmetric] page_def [symmetric]
    using 1 2 3 4 by blast
qed

theorem rendered_page_contents_witness:
  "game_list
     (renderGamesForCurrentConsole caseInsensitiveCompare
        (initialState\<lparr>activeStatusFilter := Some ''completed'',
           statusFilteredGames := map (\<lambda>i. \<lparr>gid = int i, title = ''Game'', genre = None\<rparr>) [1..<46],
           currentPage := 3\<rparr>))
     = Cards (map (\<lambda>i. \<lparr>gid = int i, title = ''Game'', genre = None\<rparr>) [41..<46]) 3 3 \<and>
   currentPage
     (renderGamesForCurrentConsole caseInsensitiveCompare
        (initialState\<lparr>activeStatusFilter := Some ''completed'',
           statusFilteredGames := map (\<lambda>i. \<lparr>gid = int i, title = ''Game'', genre = None\<rparr>) [1..<46],
           currentPage := 10\<rparr>)) = 1"
proof -
  let ?games = "map (\<lambda>i. \<lparr>gid = int i, title = ''Game'', genre = None\<rparr>) [1..<46]"
  let ?s = "\<lambda>p. initialState\<lparr>activeStatusFilter := Some ''completed'',
           statusFilteredGames := ?games, currentPage := p\<rparr>"
  have w: "workingList caseInsensitiveCompare (?s p) = Some ?games" for p
    by (simp add: workingList_def baseGames_def filteredGames_def)
  have i: "itemsAt ?games 40 45
             = map (\<lambda>i. \<lparr>gid = int i, title = ''Game'', genre = None\<rparr>) [41..<46]"
    unfolding itemsAt_def by (rule nth_equalityI) simp_all
  have ne: "map (\<lambda>i. \<lparr>gid = int i, title = ''Game'', genre = None\<rparr>) [41..<46] \<noteq> []"
    by simp
  show ?thesis
    using rendered_page_contents [OF w [of 3]] rendered_page_contents [OF w [of 10]] i ne
    by (simp add: Let_def totalPages_div)
qed

section \<open>Opening a game detail\<close>

lemma recordGameView_keeps [simp]:
  "gamesByConsole (recordGameView i r s) = gamesByConsole s"
  "currentConsoleId (recordGameView i r s) = currentConsoleId s"
  "activeFilter (recordGameView i r s) = activeFilter s"
  "activeGenreFilter (recordGameView i r s) = activeGenreFilter s"
  by (simp_all add: recordGameView_def)

lemma loadGameStatus_filters [simp]:
  "gamesByConsole (snd (loadGameStatus i r s)) = gamesByConsole s"
  "currentConsoleId (snd (loadGameStatus i r s)) = currentConsoleId s"
  "activeFilter (snd (loadGameStatus i r s)) = activeFilter s"
  "activeGenreFilter (snd (loadGameStatus i r s)) = activeGenreFilter s"
  by (cases r; simp add: loadGameStatus_def showToast_def)+

text \<open>
  Without an active status filter and with a console selected, the navigation list that
  \<^verbatim>\<open>openGameDetail\<close> computes is the working list of \<^verbatim>\<open>renderGamesForCurrentConsole\<close>.
\<close>

lemma openGameDetail_list_without_status:
  assumes "\<not> truthy_str (activeStatusFilter s)" and "truthy_id (currentConsoleId s)"
  shows "Some (currentGamesList (openGameDetail c gameId (Ok g) rview rstatus s))
           = workingList c s"
  using assms
  by (simp add: openGameDetail_def workingList_def baseGames_def filteredGames_def
      cachedGames_def split_beta Let_def)

text \<open>
  Claim C10 fails on the code. Console 1 holds three games, the status filter "favorite"
  is active and the server sent one game for it, so the list on the screen is that one
  game. Opening it gives a navigation list of all three games of the console and the
  index 1: \<^verbatim>\<open>openGameDetail\<close> repeats the alphabetical and the genre filter of
  \<^verbatim>\<open>renderGamesForCurrentConsole\<close> but not its status branch.
\<close>

theorem detail_navigation_ignores_status_filter:
  "workingList caseInsensitiveCompare
     (initialState\<lparr>currentConsoleId := Some 1,
        gamesByConsole :=
          [Some 1 \<mapsto> [\<lparr>gid = 1, title = ''Doom'', genre = None\<rparr>,
                       \<lparr>gid = 2, title = ''Tetris'', genre = None\<rparr>,
                       \<lparr>gid = 3, title = ''Ultima'', genre = None\<rparr>]],
        activeStatusFilter := Some ''favorite'',
        statusFilteredGames := [\<lparr>gid = 2, title = ''Tetris'', genre = None\<rparr>]\<rparr>)
     = Some [\<lparr>gid = 2, title = ''Tetris'', genre = None\<rparr>] \<and>
   currentGamesList
     (openGameDetail caseInsensitiveCompare 2
        (Ok \<lparr>gid = 2, title = ''Tetris'', genre = None\<rparr>) (Ok ()) (Ok [''favorite''])
        (initialState\<lparr>currentConsoleId := Some 1,
           gamesByConsole :=
             [Some 1 \<mapsto> [\<lparr>gid = 1, title = ''Doom'', genre = None\<rparr>,
                          \<lparr>gid = 2, title = ''Tetris'', genre = None\<rparr>,
                          \<lparr>gid = 3, title = ''Ultima'', genre = None\<rparr>]],
           activeStatusFilter := Some ''favorite'',
           statusFilteredGames := [\<lparr>gid = 2, title = ''Tetris'', genre = None\<rparr>]\<rparr>))
     = [\<lparr>gid = 1, title = ''Doom'', genre = None\<rparr>,
        \<lparr>gid = 2, title = ''Tetris'', genre = None\<rparr>,
        \<lparr>gid = 3, title = ''Ultima'', genre = None\<rparr>] \<and>
   currentGameIndex
     (openGameDetail caseInsensitiveCompare 2
        (Ok \<lparr>gid = 2, title = ''Tetris'', genre = None\<rparr>) (Ok ()) (Ok [''favorite''])
        (initialState\<lparr>currentConsoleId := Some 1,
           gamesByConsole :=
             [Some 1 \<mapsto> [\<lparr>gid = 1, title = ''Doom'', genre = None\<rparr>,
                          \<lparr>gid = 2, title = ''Tetris'', genre = None\<rparr>,
                          \<lparr>gid = 3, title = ''Ultima'', genre = None\<rparr>]],
           activeStatusFilter := Some ''favorite'',
           statusFilteredGames := [\<lparr>gid = 2, title = ''Tetris'', genre = None\<rparr>]\<rparr>))
     = 1"
  by (simp add: openGameDetail_def recordGameView_def loadGameStatus_def workingList_def
      baseGames_def filteredGames_def cachedGames_def initialState_def Let_def eval_strings)

end
